theory Spec2Isabelle
  imports Complex_Main "HOL-Library.AList"
begin

section \<open>MarathonSpawner: a shallow embedding of \<^verbatim>\<open>marathonspawner.py\<close>\<close>

text \<open>
  The spawner talks to three things it does not own: the Marathon client
  (\<^verbatim>\<open>create_app\<close>, \<^verbatim>\<open>get_app\<close>, \<^verbatim>\<open>delete_app\<close>), the name resolver
  (\<^verbatim>\<open>socket.gethostbyname\<close>) and the clock (\<^verbatim>\<open>time.sleep\<close>). They are a
  parameter of the model, the \<open>world\<close>: what each call answers. Every call the spawner
  makes is appended to a log kept in the state, so that a theorem can say which calls were
  made, with which arguments and in which order. Exceptions are values: a method returns
  \<open>Inl\<close> of the exception that escapes it, or \<open>Inr\<close> of its result.
\<close>

subsection \<open>Python floats\<close>

text \<open>
  \<^verbatim>\<open>self.mem_limit / 1024.0 / 1024.0\<close> is float arithmetic. A Python float is an IEEE 754
  binary64: 53 bits of significand, exponents of the least significant bit from \<open>-1074\<close>
  to \<open>971\<close>, every operation rounded to the nearest value, ties to the even significand.
  A finite float is modelled by the rational number it denotes (the sign of a zero is not
  modelled).
\<close>

datatype pyfloat = Finite rat | PosInf | NegInf

definition pow2 :: "int \<Rightarrow> rat" where
  "pow2 e = (if 0 \<le> e then 2 ^ nat e else 1 / 2 ^ nat (- e))"

function bit_length :: "int \<Rightarrow> int" where
  \<comment> \<open>the number of binary digits of a positive integer\<close>
  "bit_length n = (if n \<le> 0 then 0 else 1 + bit_length (n div 2))"
  by pat_completeness auto
termination
  by (relation "measure nat") auto

declare bit_length.simps [simp del]

definition ilog2 :: "rat \<Rightarrow> int" where
  \<comment> \<open>for \<open>0 < a\<close>: the exponent \<open>e\<close> with \<open>2\<^sup>e \<le> a < 2\<^sup>e\<^sup>+\<^sup>1\<close>\<close>
  "ilog2 a =
     (let (p, q) = quotient_of a;
          d = bit_length p - bit_length q
      in if pow2 d \<le> a then d else d - 1)"

definition round_half_even :: "rat \<Rightarrow> int" where
  "round_half_even x =
     (let f = \<lfloor>x\<rfloor>; d = x - of_int f
      in if d < 1 / 2 then f
         else if 1 / 2 < d then f + 1
         else if even f then f else f + 1)"

definition fl_round :: "rat \<Rightarrow> pyfloat" where
  "fl_round x =
     (if x = 0 then Finite 0
      else
        let a = \<bar>x\<bar>;
            e = max (ilog2 a - 52) (- 1074);
            m = round_half_even (a / pow2 e);
            r = of_int m * pow2 e
        in if pow2 1024 \<le> r then (if 0 < x then PosInf else NegInf)
           else Finite (if 0 < x then r else - r))"

datatype orch_error =
    OrchestratorRejected
  | OrchestratorUnreachable
  | WorkloadNotFound
  | Unclassified

datatype py_exc =
    TypeError
  | ValueError
  | OverflowError
  | AssertionError
  | IndexError
  | HostLookupError
  | ClientError orch_error

definition float_of_int :: "int \<Rightarrow> py_exc + pyfloat" where
  \<comment> \<open>the conversion of an \<^verbatim>\<open>int\<close> operand of \<^verbatim>\<open>/\<close>: correctly rounded, and
      \<^verbatim>\<open>OverflowError\<close> when the integer is too large for a float\<close>
  "float_of_int n =
     (case fl_round (of_int n) of
        Finite x \<Rightarrow> Inr (Finite x)
      | PosInf \<Rightarrow> Inl OverflowError
      | NegInf \<Rightarrow> Inl OverflowError)"

definition truediv_1024 :: "pyfloat \<Rightarrow> pyfloat" where
  \<comment> \<open>\<^verbatim>\<open>x / 1024.0\<close>\<close>
  "truediv_1024 x = (case x of Finite q \<Rightarrow> fl_round (q / 1024) | PosInf \<Rightarrow> PosInf | NegInf \<Rightarrow> NegInf)"


subsection \<open>Configuration and the workload descriptor\<close>

text \<open>
  The attributes the spawner reads: its own traits (\<^verbatim>\<open>app_image\<close>, \<^verbatim>\<open>app_prefix\<close>,
  \<^verbatim>\<open>marathon_constraints\<close>, \<^verbatim>\<open>ports\<close>, \<^verbatim>\<open>volumes\<close>, \<^verbatim>\<open>network_mode\<close>,
  \<^verbatim>\<open>hub_ip_connect\<close>) and those of the JupyterHub base class, the user and the hub
  (\<^verbatim>\<open>self.user.name\<close>, \<^verbatim>\<open>self.hub.api_url\<close>, \<^verbatim>\<open>self.mem_limit\<close>, ...). A trait that
  may be \<^verbatim>\<open>None\<close> is an option. \<^verbatim>\<open>super().get_env()\<close> is the field \<open>base_env\<close>; a
  dictionary is an association list in insertion order. The entries of
  \<^verbatim>\<open>marathon_constraints\<close> and \<^verbatim>\<open>volumes\<close> are taken well-formed, so that the library's
  \<^verbatim>\<open>from_json\<close> only repackages them.
\<close>

type_synonym pydict = "(string \<times> string) list"

record spawner =
  app_image :: string
  app_prefix :: string
  marathon_constraints :: "(string \<times> string \<times> string option) list"
  ports :: "int list"
  volumes :: "(string \<times> string \<times> string) list"
  network_mode :: string
  hub_ip_connect :: string
  user_name :: string
  cookie_name :: string
  server_base_url :: string
  hub_base_url :: string
  hub_api_url :: string
  notebook_dir :: string
  base_env :: pydict
  mem_limit :: "int option"
  cpu_limit :: "pyfloat option"
  start_timeout :: int

record marathon_health_check =
  hc_protocol :: string
  hc_port_index :: int
  hc_grace_period_seconds :: int
  hc_interval_seconds :: int
  hc_timeout_seconds :: int
  hc_max_consecutive_failures :: int

record marathon_port_mapping =
  pm_container_port :: int
  pm_host_port :: int
  pm_protocol :: string

record marathon_volume =
  vol_container_path :: string
  vol_host_path :: string
  vol_mode :: string

record marathon_constraint =
  con_field :: string
  con_operator :: string
  con_value :: "string option"

record marathon_docker_container =
  dc_image :: string
  dc_network :: string
  dc_port_mappings :: "marathon_port_mapping list"

record marathon_container =
  ct_docker :: marathon_docker_container
  ct_type :: string
  ct_volumes :: "marathon_volume list"

record marathon_app_request =
  app_id :: string
  app_env :: pydict
  app_cpus :: "pyfloat option"
  app_mem :: pyfloat
  app_container :: marathon_container
  app_constraints :: "marathon_constraint list option"
  app_health_checks :: "marathon_health_check list"
  app_instances :: int

definition container_name :: "spawner \<Rightarrow> string" where
  \<comment> \<open>\<^verbatim>\<open>'/%s/%s' % (self.app_prefix, self.user.name)\<close>\<close>
  "container_name sp = ''/'' @ app_prefix sp @ ''/'' @ user_name sp"

definition get_health_checks :: "spawner \<Rightarrow> marathon_health_check list" where
  "get_health_checks sp =
     [] @ [\<lparr>hc_protocol = ''TCP'', hc_port_index = 0, hc_grace_period_seconds = 300,
            hc_interval_seconds = 60, hc_timeout_seconds = 20,
            hc_max_consecutive_failures = 0\<rparr>]"

definition volume_from_json :: "string \<times> string \<times> string \<Rightarrow> marathon_volume" where
  "volume_from_json v =
     (case v of (c, h, m) \<Rightarrow> \<lparr>vol_container_path = c, vol_host_path = h, vol_mode = m\<rparr>)"

definition get_volumes :: "spawner \<Rightarrow> marathon_volume list" where
  "get_volumes sp = foldl (\<lambda>vs v. vs @ [volume_from_json v]) [] (volumes sp)"

definition get_port_mappings :: "spawner \<Rightarrow> marathon_port_mapping list" where
  "get_port_mappings sp =
     foldl (\<lambda>pms p. pms @ [\<lparr>pm_container_port = p, pm_host_port = 0, pm_protocol = ''tcp''\<rparr>])
       [] (ports sp)"

definition constraint_from_json :: "string \<times> string \<times> string option \<Rightarrow> marathon_constraint" where
  "constraint_from_json c =
     (case c of (f, oper, v) \<Rightarrow> \<lparr>con_field = f, con_operator = oper, con_value = v\<rparr>)"

definition get_constraints :: "spawner \<Rightarrow> marathon_constraint list option" where
  \<comment> \<open>the loop fills the local list \<^verbatim>\<open>constraints\<close>; the method has no \<^verbatim>\<open>return\<close>
      statement, so the call evaluates to \<^verbatim>\<open>None\<close>\<close>
  "get_constraints sp =
     (let constraints = foldl (\<lambda>cs c. cs @ [constraint_from_json c]) [] (marathon_constraints sp)
      in None)"

fun split_once :: "string \<Rightarrow> string \<Rightarrow> (string \<times> string) option" where
  \<comment> \<open>\<^verbatim>\<open>a, b = s.split(sep, 1)\<close> for a non-empty \<^verbatim>\<open>sep\<close>: the parts around the leftmost
      occurrence, \<open>None\<close> when there is no occurrence (the unpacking then raises)\<close>
  "split_once sep [] = None"
| "split_once sep (c # cs) =
     (if take (length sep) (c # cs) = sep then Some ([], drop (length sep) (c # cs))
      else (case split_once sep cs of None \<Rightarrow> None | Some (a, b) \<Rightarrow> Some (c # a, b)))"

definition public_hub_api_url :: "spawner \<Rightarrow> py_exc + string" where
  "public_hub_api_url sp =
     (case split_once ''://'' (hub_api_url sp) of
        None \<Rightarrow> Inl ValueError
      | Some (proto, path) \<Rightarrow>
          (case split_once '':'' path of
             None \<Rightarrow> Inl ValueError
           | Some (ip, rest) \<Rightarrow> Inr (proto @ ''://'' @ hub_ip_connect sp @ '':'' @ rest)))"

definition dict_update :: "pydict \<Rightarrow> pydict \<Rightarrow> pydict" where
  \<comment> \<open>\<^verbatim>\<open>d.update(e)\<close>\<close>
  "dict_update d e = foldl (\<lambda>acc (k, v). AList.update k v acc) d e"

definition get_env :: "spawner \<Rightarrow> py_exc + pydict" where
  "get_env sp =
     (let env = base_env sp;
          env = dict_update env
                  [(''JPY_USER'', user_name sp),
                   (''JPY_COOKIE_NAME'', cookie_name sp),
                   (''JPY_BASE_URL'', server_base_url sp),
                   (''JPY_HUB_PREFIX'', hub_base_url sp)];
          env = (if notebook_dir sp \<noteq> [] then AList.update ''NOTEBOOK_DIR'' (notebook_dir sp) env
                 else env)
      in case (if hub_ip_connect sp \<noteq> [] then public_hub_api_url sp else Inr (hub_api_url sp)) of
           Inl e \<Rightarrow> Inl e
         | Inr url \<Rightarrow> Inr (AList.update ''JPY_HUB_API_URL'' url env))"

definition mem_request :: "spawner \<Rightarrow> py_exc + pyfloat" where
  \<comment> \<open>\<^verbatim>\<open>self.mem_limit / 1024.0 / 1024.0\<close>; a limit that is \<^verbatim>\<open>None\<close> has no \<^verbatim>\<open>/\<close>\<close>
  "mem_request sp =
     (case mem_limit sp of
        None \<Rightarrow> Inl TypeError
      | Some n \<Rightarrow>
          (case float_of_int n of
             Inl e \<Rightarrow> Inl e
           | Inr x \<Rightarrow> Inr (truediv_1024 (truediv_1024 x))))"

definition build_app_request :: "spawner \<Rightarrow> py_exc + marathon_app_request" where
  \<comment> \<open>the first half of \<^verbatim>\<open>start\<close>, up to the \<^verbatim>\<open>MarathonApp(...)\<close> constructor\<close>
  "build_app_request sp =
     (let docker_container =
            \<lparr>dc_image = app_image sp, dc_network = network_mode sp,
             dc_port_mappings = get_port_mappings sp\<rparr>;
          app_container =
            \<lparr>ct_docker = docker_container, ct_type = ''DOCKER'', ct_volumes = get_volumes sp\<rparr>
      in case mem_request sp of
           Inl e \<Rightarrow> Inl e
         | Inr mem \<Rightarrow>
             (case get_env sp of
                Inl e \<Rightarrow> Inl e
              | Inr env \<Rightarrow>
                  Inr \<lparr>app_id = container_name sp, app_env = env, app_cpus = cpu_limit sp,
                       app_mem = mem, app_container = app_container,
                       app_constraints = get_constraints sp,
                       app_health_checks = get_health_checks sp, app_instances = 1\<rparr>))"


subsection \<open>The orchestrator, the resolver and the clock\<close>

text \<open>
  What the Marathon client answers is not in this repository. A \<open>world\<close> fixes it: the
  answer to \<^verbatim>\<open>create_app\<close>, the answer to the \<open>k\<close>-th \<^verbatim>\<open>get_app\<close> and the \<open>k\<close>-th
  \<^verbatim>\<open>delete_app\<close> call (counted from 0 over the whole log, so that the answers may change
  as time passes), each depending on the arguments passed, and the table of the name
  resolver. \<open>Inl\<close> is an exception raised by the client, named as the specification names
  the failures of its facade. \<^verbatim>\<open>create_app\<close> returns the created application or
  \<^verbatim>\<open>False\<close>.
\<close>

record marathon_task =
  task_host :: string
  task_ports :: "int list"

record marathon_app =
  tasks_healthy :: int
  tasks :: "marathon_task list"

datatype create_result = CreatedApp | ReturnedFalse

record world =
  create_app_reply :: "string \<Rightarrow> marathon_app_request \<Rightarrow> orch_error + create_result"
  get_app_reply :: "nat \<Rightarrow> string \<Rightarrow> bool \<Rightarrow> orch_error + marathon_app"
  delete_app_reply :: "nat \<Rightarrow> string \<Rightarrow> orch_error + unit"
  gethostbyname_reply :: "string \<Rightarrow> string option"

datatype call =
    CreateApp string marathon_app_request
  | GetApp string bool
  | DeleteApp string
  | GetHostByName string
  | Sleep int

text \<open>
  The mutable state: the log of the calls made so far, oldest first, and the two fields of
  the caller's server record that \<^verbatim>\<open>start\<close> assigns (\<^verbatim>\<open>self.user.server.ip\<close> and
  \<^verbatim>\<open>self.user.server.port\<close>).
\<close>

record state =
  calls :: "call list"
  server_ip :: string
  server_port :: int

fun is_get_app :: "call \<Rightarrow> bool" where
  "is_get_app (GetApp a e) = True"
| "is_get_app c = False"

fun is_delete_app :: "call \<Rightarrow> bool" where
  "is_delete_app (DeleteApp a) = True"
| "is_delete_app c = False"

definition n_get_app :: "call list \<Rightarrow> nat" where
  "n_get_app cs = length (filter is_get_app cs)"

definition n_delete_app :: "call list \<Rightarrow> nat" where
  "n_delete_app cs = length (filter is_delete_app cs)"

definition log_call :: "call \<Rightarrow> state \<Rightarrow> state" where
  "log_call c s = s\<lparr>calls := calls s @ [c]\<rparr>"

definition marathon_create_app ::
  "world \<Rightarrow> string \<Rightarrow> marathon_app_request \<Rightarrow> state \<Rightarrow> (orch_error + create_result) \<times> state" where
  "marathon_create_app w aid req s = (create_app_reply w aid req, log_call (CreateApp aid req) s)"

definition marathon_get_app ::
  "world \<Rightarrow> string \<Rightarrow> bool \<Rightarrow> state \<Rightarrow> (orch_error + marathon_app) \<times> state" where
  "marathon_get_app w aid embed_tasks s =
     (get_app_reply w (n_get_app (calls s)) aid embed_tasks, log_call (GetApp aid embed_tasks) s)"

definition marathon_delete_app ::
  "world \<Rightarrow> string \<Rightarrow> state \<Rightarrow> (orch_error + unit) \<times> state" where
  "marathon_delete_app w aid s =
     (delete_app_reply w (n_delete_app (calls s)) aid, log_call (DeleteApp aid) s)"

definition socket_gethostbyname :: "world \<Rightarrow> string \<Rightarrow> state \<Rightarrow> string option \<times> state" where
  "socket_gethostbyname w h s = (gethostbyname_reply w h, log_call (GetHostByName h) s)"

definition time_sleep :: "int \<Rightarrow> state \<Rightarrow> state" where
  "time_sleep d s = log_call (Sleep d) s"

subsection \<open>The operations of the spawner\<close>

definition poll :: "spawner \<Rightarrow> world \<Rightarrow> state \<Rightarrow> (py_exc + string option) \<times> state" where
  \<comment> \<open>\<open>Inr None\<close> is Python's \<^verbatim>\<open>None\<close>, \<open>Inr (Some [])\<close> the empty string\<close>
  "poll sp w s =
     (case marathon_get_app w (container_name sp) False s of
        (Inl e, s') \<Rightarrow> (Inr (Some []), s')
      | (Inr app, s') \<Rightarrow>
          if tasks_healthy app = 1 then (Inr None, s') else (Inr (Some []), s'))"

definition get_ip_and_port :: "spawner \<Rightarrow> world \<Rightarrow> state \<Rightarrow> (py_exc + string \<times> int) \<times> state" where
  "get_ip_and_port sp w s =
     (case marathon_get_app w (container_name sp) True s of
        (Inl e, s') \<Rightarrow> (Inl (ClientError e), s')
      | (Inr app, s') \<Rightarrow>
          (case tasks app of
             [t] \<Rightarrow>
               (case socket_gethostbyname w (task_host t) s' of
                  (None, s'') \<Rightarrow> (Inl HostLookupError, s'')
                | (Some ip, s'') \<Rightarrow>
                    (case task_ports t of
                       [] \<Rightarrow> (Inl IndexError, s'')
                     | p # ps \<Rightarrow> (Inr (ip, p), s'')))
           | _ \<Rightarrow> (Inl AssertionError, s')))"

fun start_loop ::
  "spawner \<Rightarrow> world \<Rightarrow> nat \<Rightarrow> state \<Rightarrow> (py_exc + (string \<times> int) option) \<times> state" where
  \<comment> \<open>the \<^verbatim>\<open>for\<close> loop of \<^verbatim>\<open>start\<close> with \<open>n\<close> iterations left, and the
      \<^verbatim>\<open>return None\<close> after it\<close>
  "start_loop sp w 0 s = (Inr None, s)"
| "start_loop sp w (Suc n) s =
     (case poll sp w s of
        (Inl e, s') \<Rightarrow> (Inl e, s')
      | (Inr None, s') \<Rightarrow>
          (case get_ip_and_port sp w s' of
             (Inl e, s'') \<Rightarrow> (Inl e, s'')
           | (Inr (ip, port), s'') \<Rightarrow>
               (Inr (Some (ip, port)), s''\<lparr>server_ip := ip, server_port := port\<rparr>))
      | (Inr (Some running), s') \<Rightarrow> start_loop sp w n (time_sleep 1 s'))"

definition start :: "spawner \<Rightarrow> world \<Rightarrow> state \<Rightarrow> (py_exc + (string \<times> int) option) \<times> state" where
  "start sp w s =
     (case build_app_request sp of
        Inl e \<Rightarrow> (Inl e, s)
      | Inr app_request \<Rightarrow>
          (case marathon_create_app w (container_name sp) app_request s of
             (Inl e, s') \<Rightarrow> (Inr None, s')
           | (Inr ReturnedFalse, s') \<Rightarrow> (Inr None, s')
           | (Inr CreatedApp, s') \<Rightarrow> start_loop sp w (nat (start_timeout sp)) s'))"

definition stop :: "spawner \<Rightarrow> world \<Rightarrow> state \<Rightarrow> (py_exc + unit) \<times> state" where
  "stop sp w s =
     (case marathon_delete_app w (container_name sp) s of
        (Inl e, s') \<Rightarrow> (Inl (ClientError e), s')
      | (Inr u, s') \<Rightarrow> (Inr (), s'))"


subsection \<open>Reading the log\<close>

definition healthy_reply :: "orch_error + marathon_app \<Rightarrow> bool" where
  \<comment> \<open>the answers to \<^verbatim>\<open>get_app\<close> on which \<^verbatim>\<open>poll\<close> returns \<^verbatim>\<open>None\<close>\<close>
  "healthy_reply r = (case r of Inl e \<Rightarrow> False | Inr app \<Rightarrow> tasks_healthy app = 1)"

fun is_poll_call :: "call \<Rightarrow> bool" where
  "is_poll_call (GetApp a e) = (\<not> e)"
| "is_poll_call c = False"

definition n_polls :: "call list \<Rightarrow> nat" where
  "n_polls cs = length (filter is_poll_call cs)"

fun sleep_seconds :: "call \<Rightarrow> int" where
  "sleep_seconds (Sleep d) = d"
| "sleep_seconds c = 0"

definition seconds_slept :: "call list \<Rightarrow> int" where
  "seconds_slept cs = sum_list (map sleep_seconds cs)"

fun keyed_by :: "string \<Rightarrow> call \<Rightarrow> bool" where
  \<comment> \<open>a call to the orchestrator names the workload \<open>k\<close>\<close>
  "keyed_by k (CreateApp a req) = (a = k \<and> app_id req = k)"
| "keyed_by k (GetApp a e) = (a = k)"
| "keyed_by k (DeleteApp a) = (a = k)"
| "keyed_by k (GetHostByName h) = True"
| "keyed_by k (Sleep d) = True"

definition new_calls :: "state \<Rightarrow> state \<Rightarrow> call list" where
  \<comment> \<open>the calls logged between the state \<open>s\<close> and the later state \<open>s'\<close>\<close>
  "new_calls s s' = drop (length (calls s)) (calls s')"

subsection \<open>A configuration and some orchestrators to run the model on\<close>

definition example_spawner :: spawner where
  "example_spawner =
     \<lparr>app_image = ''jupyterhub/singleuser'', app_prefix = ''jupyter'',
      marathon_constraints = [(''hostname'', ''UNIQUE'', None)], ports = [8888], volumes = [],
      network_mode = ''BRIDGE'', hub_ip_connect = [], user_name = ''alice'',
      cookie_name = ''jupyter-hub-token-alice'', server_base_url = ''/user/alice'',
      hub_base_url = ''/hub'', hub_api_url = ''http://127.0.0.1:8081/hub/api'',
      notebook_dir = [], base_env = [], mem_limit = Some 1572864, cpu_limit = Some (Finite 1),
      start_timeout = 5\<rparr>"

definition fresh_state :: state where
  "fresh_state = \<lparr>calls = [], server_ip = [], server_port = 0\<rparr>"

definition one_task_app :: marathon_app where
  "one_task_app =
     \<lparr>tasks_healthy = 1, tasks = [\<lparr>task_host = ''node1'', task_ports = [31000, 31001]\<rparr>]\<rparr>"

definition resolver_table :: "string \<Rightarrow> string option" where
  "resolver_table h = (if h = ''node1'' then Some ''10.0.0.7'' else None)"

definition world_transient :: world where
  \<comment> \<open>the first three queries find no workload, every later one finds it healthy\<close>
  "world_transient =
     \<lparr>create_app_reply = (\<lambda>a req. Inr CreatedApp),
      get_app_reply = (\<lambda>k a e. if k < 3 then Inl WorkloadNotFound else Inr one_task_app),
      delete_app_reply = (\<lambda>k a. Inr ()),
      gethostbyname_reply = resolver_table\<rparr>"

definition world_never_healthy :: world where
  "world_never_healthy =
     \<lparr>create_app_reply = (\<lambda>a req. Inr CreatedApp),
      get_app_reply = (\<lambda>k a e. Inr \<lparr>tasks_healthy = 0, tasks = []\<rparr>),
      delete_app_reply = (\<lambda>k a. Inr ()),
      gethostbyname_reply = resolver_table\<rparr>"

definition world_rejected :: world where
  "world_rejected = world_transient\<lparr>create_app_reply := (\<lambda>a req. Inr ReturnedFalse)\<rparr>"

definition world_unreachable :: world where
  "world_unreachable =
     world_transient\<lparr>create_app_reply := (\<lambda>a req. Inl OrchestratorUnreachable)\<rparr>"

definition world_two_healthy :: world where
  "world_two_healthy =
     world_transient\<lparr>get_app_reply := (\<lambda>k a e. Inr \<lparr>tasks_healthy = 2, tasks = []\<rparr>)\<rparr>"

definition mebibyte_spawner :: spawner where
  "mebibyte_spawner = example_spawner\<lparr>mem_limit := Some 1048576\<rparr>"

definition big_limit_spawner :: spawner where
  \<comment> \<open>a limit of \<open>2\<^sup>5\<^sup>3 + 1\<close> bytes\<close>
  "big_limit_spawner = example_spawner\<lparr>mem_limit := Some 9007199254740993\<rparr>"

definition example_request :: marathon_app_request where
  "example_request =
     \<lparr>app_id = ''/jupyter/alice'',
      app_env = [(''JPY_USER'', ''alice''), (''JPY_COOKIE_NAME'', ''jupyter-hub-token-alice''),
                 (''JPY_BASE_URL'', ''/user/alice''), (''JPY_HUB_PREFIX'', ''/hub''),
                 (''JPY_HUB_API_URL'', ''http://127.0.0.1:8081/hub/api'')],
      app_cpus = Some (Finite 1), app_mem = Finite (3 / 2),
      app_container =
        \<lparr>ct_docker =
           \<lparr>dc_image = ''jupyterhub/singleuser'', dc_network = ''BRIDGE'',
            dc_port_mappings =
              [\<lparr>pm_container_port = 8888, pm_host_port = 0, pm_protocol = ''tcp''\<rparr>]\<rparr>,
         ct_type = ''DOCKER'', ct_volumes = []\<rparr>,
      app_constraints = None,
      app_health_checks =
        [\<lparr>hc_protocol = ''TCP'', hc_port_index = 0, hc_grace_period_seconds = 300,
          hc_interval_seconds = 60, hc_timeout_seconds = 20,
          hc_max_consecutive_failures = 0\<rparr>],
      app_instances = 1\<rparr>"

definition world_ready :: world where
  "world_ready = world_transient\<lparr>get_app_reply := (\<lambda>k a e. Inr one_task_app)\<rparr>"

definition world_unknown_host :: world where
  "world_unknown_host =
     world_transient\<lparr>get_app_reply :=
       (\<lambda>k a e. Inr \<lparr>tasks_healthy = 1,
                       tasks = [\<lparr>task_host = ''node9'', task_ports = [31000]\<rparr>]\<rparr>)\<rparr>"

definition world_two_tasks :: world where
  "world_two_tasks =
     world_transient\<lparr>get_app_reply :=
       (\<lambda>k a e. Inr \<lparr>tasks_healthy = 1,
                       tasks = [\<lparr>task_host = ''node1'', task_ports = [31000]\<rparr>,
                                \<lparr>task_host = ''node2'', task_ports = [31000]\<rparr>]\<rparr>)\<rparr>"

definition world_discovery_fails :: world where
  \<comment> \<open>three queries find no workload, the fourth finds it healthy, and from the fifth on
      the orchestrator cannot be reached\<close>
  "world_discovery_fails =
     world_transient\<lparr>get_app_reply :=
       (\<lambda>k a e. if k < 3 then Inl WorkloadNotFound
                 else if k = 3 then Inr one_task_app
                 else Inl OrchestratorUnreachable)\<rparr>"

definition world_delete_not_found :: world where
  \<comment> \<open>a client whose delete raises when the workload does not exist\<close>
  "world_delete_not_found =
     world_transient\<lparr>delete_app_reply := (\<lambda>k a. Inl WorkloadNotFound)\<rparr>"

section \<open>Properties\<close>

subsection \<open>Bookkeeping\<close>

lemma n_get_app_simps [simp]:
  "n_get_app [] = 0"
  "n_get_app (c # cs) = (if is_get_app c then Suc (n_get_app cs) else n_get_app cs)"
  "n_get_app (cs @ ds) = n_get_app cs + n_get_app ds"
  by (simp_all add: n_get_app_def)

lemma n_delete_app_simps [simp]:
  "n_delete_app [] = 0"
  "n_delete_app (c # cs) = (if is_delete_app c then Suc (n_delete_app cs) else n_delete_app cs)"
  "n_delete_app (cs @ ds) = n_delete_app cs + n_delete_app ds"
  by (simp_all add: n_delete_app_def)

lemma n_polls_simps [simp]:
  "n_polls [] = 0"
  "n_polls (c # cs) = (if is_poll_call c then Suc (n_polls cs) else n_polls cs)"
  "n_polls (cs @ ds) = n_polls cs + n_polls ds"
  by (simp_all add: n_polls_def)

lemma seconds_slept_simps [simp]:
  "seconds_slept [] = 0"
  "seconds_slept (c # cs) = sleep_seconds c + seconds_slept cs"
  "seconds_slept (cs @ ds) = seconds_slept cs + seconds_slept ds"
  by (simp_all add: seconds_slept_def)

lemma calls_log_call [simp]: "calls (log_call c s) = calls s @ [c]"
  by (simp add: log_call_def)

lemma server_log_call [simp]:
  "server_ip (log_call c s) = server_ip s" "server_port (log_call c s) = server_port s"
  by (simp_all add: log_call_def)

lemma poll_eq:
  "poll sp w s =
     (if healthy_reply (get_app_reply w (n_get_app (calls s)) (container_name sp) False)
      then Inr None else Inr (Some []),
      log_call (GetApp (container_name sp) False) s)"
  by (simp add: poll_def marathon_get_app_def healthy_reply_def split: sum.splits)

subsection \<open>The poll operation\<close>

text \<open>
  C4. \<^verbatim>\<open>poll\<close> returns \<^verbatim>\<open>None\<close>, the signal that the server is live, exactly when the
  query is answered with an application whose count of healthy tasks is 1. On every other
  answer (a count of 0, of 2 or more, or a failed query) it returns the empty string, the
  signal that the server is not ready. It returns one of these two values on every answer:
  no exception leaves it.
\<close>

theorem poll_ready_iff_one_healthy:
  "(fst (poll sp w s) = Inr None \<longleftrightarrow>
      (\<exists>app. get_app_reply w (n_get_app (calls s)) (container_name sp) False = Inr app
             \<and> tasks_healthy app = 1))
   \<and> (fst (poll sp w s) = Inr None \<or> fst (poll sp w s) = Inr (Some []))"
proof -
  let ?r = "get_app_reply w (n_get_app (calls s)) (container_name sp) False"
  have "healthy_reply ?r \<longleftrightarrow> (\<exists>app. ?r = Inr app \<and> tasks_healthy app = 1)"
    by (cases ?r) (simp_all add: healthy_reply_def)
  then show ?thesis
    by (simp add: poll_eq)
qed

theorem poll_ready_iff_one_healthy_witness:
  "fst (poll example_spawner world_transient fresh_state) = Inr (Some [])
   \<and> fst (poll example_spawner world_never_healthy fresh_state) = Inr (Some [])
   \<and> fst (poll example_spawner world_two_healthy fresh_state) = Inr (Some [])
   \<and> fst (poll example_spawner world_transient
             (fresh_state\<lparr>calls := replicate 3 (GetApp ''/jupyter/alice'' False)\<rparr>)) = Inr None"
proof -
  have a: "fst (poll example_spawner world_transient fresh_state) \<noteq> Inr None"
    using poll_ready_iff_one_healthy [of example_spawner world_transient fresh_state]
    by (simp add: world_transient_def fresh_state_def)
  have b: "fst (poll example_spawner world_never_healthy fresh_state) \<noteq> Inr None"
    using poll_ready_iff_one_healthy [of example_spawner world_never_healthy fresh_state]
    by (simp add: world_never_healthy_def fresh_state_def)
  have c: "fst (poll example_spawner world_two_healthy fresh_state) \<noteq> Inr None"
    using poll_ready_iff_one_healthy [of example_spawner world_two_healthy fresh_state]
    by (simp add: world_two_healthy_def world_transient_def fresh_state_def)
  have d: "fst (poll example_spawner world_transient
             (fresh_state\<lparr>calls := replicate 3 (GetApp ''/jupyter/alice'' False)\<rparr>)) = Inr None"
    using poll_ready_iff_one_healthy [of example_spawner world_transient
        "fresh_state\<lparr>calls := replicate 3 (GetApp ''/jupyter/alice'' False)\<rparr>"]
    by (simp add: world_transient_def fresh_state_def one_task_app_def numeral_3_eq_3)
  from a b c d show ?thesis
    using poll_ready_iff_one_healthy [of example_spawner world_transient fresh_state]
      poll_ready_iff_one_healthy [of example_spawner world_never_healthy fresh_state]
      poll_ready_iff_one_healthy [of example_spawner world_two_healthy fresh_state]
    by blast
qed

subsection \<open>Float arithmetic: rounding is exact on small integers over powers of two\<close>

lemma pow2_powi: "pow2 e = 2 powi e"
  by (simp add: pow2_def power_int_def power_one_over [symmetric] inverse_eq_divide del: power_one_over)

lemma pow2_pos [simp]: "0 < pow2 e"
  by (simp add: pow2_powi)

lemma pow2_add: "pow2 (a + b) = pow2 a * pow2 b"
  by (simp add: pow2_powi power_int_add)

lemma pow2_diff: "pow2 (a - b) = pow2 a / pow2 b"
  by (simp add: pow2_powi power_int_diff)

lemma pow2_strict_mono: "a < b \<Longrightarrow> pow2 a < pow2 b"
  unfolding pow2_powi by (rule power_int_strict_increasing) simp_all

lemma pow2_mono: "a \<le> b \<Longrightarrow> pow2 a \<le> pow2 b"
  unfolding pow2_powi by (rule power_int_increasing) simp_all

lemma pow2_nat: "0 \<le> e \<Longrightarrow> pow2 e = of_int (2 ^ nat e)"
  by (simp add: pow2_def)

lemma abs_pow2 [simp]: "\<bar>pow2 e\<bar> = pow2 e"
  by (simp add: abs_of_pos)

lemma pow2_less_iff: "pow2 a < pow2 b \<longleftrightarrow> a < b"
proof
  assume h: "pow2 a < pow2 b"
  show "a < b"
  proof (rule ccontr)
    assume "\<not> a < b"
    then have "pow2 b \<le> pow2 a" by (intro pow2_mono) simp
    with h show False by simp
  qed
qed (rule pow2_strict_mono)

lemma bit_length_bounds:
  "0 < n \<Longrightarrow> 1 \<le> bit_length n \<and> 2 ^ nat (bit_length n - 1) \<le> n \<and> n < 2 ^ nat (bit_length n)"
proof (induction n rule: bit_length.induct)
  case (1 n)
  show ?case
  proof (cases "n = 1")
    case True
    then show ?thesis
      by (simp add: bit_length.simps [of 1] bit_length.simps [of 0])
  next
    case False
    with "1.prems" have h: "0 < n div 2" by simp
    from "1.IH" h "1.prems" have ih: "1 \<le> bit_length (n div 2)"
      "2 ^ nat (bit_length (n div 2) - 1) \<le> n div 2" "n div 2 < 2 ^ nat (bit_length (n div 2))"
      by simp_all
    have bl: "bit_length n = 1 + bit_length (n div 2)"
      using "1.prems" by (simp add: bit_length.simps [of n])
    have e1: "nat (bit_length n - 1) = Suc (nat (bit_length (n div 2) - 1))"
      using ih(1) bl by simp
    have e2: "nat (bit_length n) = Suc (nat (bit_length (n div 2)))"
      using ih(1) bl by simp
    define lo :: int where "lo = 2 ^ nat (bit_length (n div 2) - 1)"
    define hi :: int where "hi = 2 ^ nat (bit_length (n div 2))"
    have lo: "2 * lo \<le> n" using ih(2) unfolding lo_def [symmetric] by linarith
    have hi: "n < 2 * hi" using ih(3) unfolding hi_def [symmetric] by linarith
    have "2 ^ nat (bit_length n - 1) = 2 * lo" by (simp add: e1 lo_def)
    moreover have "2 ^ nat (bit_length n) = 2 * hi" by (simp add: e2 hi_def)
    moreover have "1 \<le> bit_length n" using bl ih(1) by simp
    ultimately show ?thesis using lo hi by simp
  qed
qed


lemma ilog2_le:
  assumes "0 < a"
  shows "pow2 (ilog2 a) \<le> a"
proof -
  obtain p q where pq: "quotient_of a = (p, q)" by (cases "quotient_of a")
  then have q: "0 < q" and a: "a = of_int p / of_int q"
    by (simp_all add: quotient_of_denom_pos quotient_of_div)
  from assms a q have p: "0 < p"
    by (simp add: zero_less_divide_iff)
  define d where "d = bit_length p - bit_length q"
  have il: "ilog2 a = (if pow2 d \<le> a then d else d - 1)"
    by (simp add: ilog2_def pq d_def Let_def)
  have "pow2 (d - 1) \<le> a"
  proof -
    from bit_length_bounds [OF p] have bp: "1 \<le> bit_length p" "2 ^ nat (bit_length p - 1) \<le> p"
      by simp_all
    from bit_length_bounds [OF q] have bq: "1 \<le> bit_length q" "q < 2 ^ nat (bit_length q)"
      by simp_all
    have lo: "pow2 (bit_length p - 1) \<le> of_int p"
      using bp by (simp add: pow2_nat del: of_int_power) 
    have hi: "of_int q \<le> pow2 (bit_length q)"
      using bq by (simp add: pow2_nat less_imp_le del: of_int_power)
    have "pow2 (d - 1) = pow2 (bit_length p - 1) / pow2 (bit_length q)"
      by (simp add: d_def pow2_diff [symmetric] algebra_simps)
    also have "\<dots> \<le> of_int p / pow2 (bit_length q)"
      by (rule divide_right_mono [OF lo]) (simp add: less_imp_le)
    also have "\<dots> \<le> of_int p / of_int q"
      using hi p q by (simp add: divide_left_mono)
    finally show ?thesis by (simp add: a)
  qed
  then show ?thesis
    by (simp add: il)
qed

lemma round_half_even_of_int: "round_half_even (of_int i) = i"
  by (simp add: round_half_even_def)

lemma fl_round_exact:
  assumes x: "x = of_int m * pow2 j" and m: "\<bar>m\<bar> < 2 ^ 53" and j: "- 1074 \<le> j" "j \<le> 970"
  shows "fl_round x = Finite x"
proof (cases "m = 0")
  case True
  then show ?thesis by (simp add: x fl_round_def)
next
  case False
  define a where "a = \<bar>x\<bar>"
  have a: "a = of_int \<bar>m\<bar> * pow2 j"
    by (simp add: a_def x abs_mult)
  from False have apos: "0 < a"
    by (simp add: a)
  have "of_int \<bar>m\<bar> < (2 :: rat) ^ 53"
    using m by (metis of_int_less_numeral_power_cancel_iff)
  moreover have "pow2 53 = 2 ^ 53"
    by (simp add: pow2_def)
  ultimately have "of_int \<bar>m\<bar> < pow2 53"
    by simp
  then have "a < pow2 53 * pow2 j"
    unfolding a by (rule mult_strict_right_mono) simp
  then have ub: "a < pow2 (53 + j)"
    by (simp add: pow2_add)
  define e where "e = max (ilog2 a - 52) (- 1074)"
  have "pow2 (ilog2 a) < pow2 (53 + j)"
    using ilog2_le [OF apos] ub by simp
  then have "ilog2 a < 53 + j"
    by (simp add: pow2_less_iff)
  then have ej: "e \<le> j"
    using j by (simp add: e_def)
  define i where "i = \<bar>m\<bar> * 2 ^ nat (j - e)"
  have "a / pow2 e = of_int \<bar>m\<bar> * pow2 (j - e)"
    by (simp add: a pow2_diff)
  also have "\<dots> = of_int i"
    using ej by (simp add: i_def pow2_nat)
  finally have q: "a / pow2 e = of_int i" .
  then have r: "of_int (round_half_even (a / pow2 e)) * pow2 e = a"
    by (simp add: round_half_even_of_int) (metis q nonzero_divide_eq_eq pow2_pos less_irrefl)
  have "pow2 (53 + j) \<le> pow2 1024"
    using j by (intro pow2_mono) simp
  with ub have nov: "\<not> pow2 1024 \<le> a" by simp
  have xn: "x \<noteq> 0" using apos by (simp add: a_def)
  have "fl_round x = (if pow2 1024 \<le> of_int (round_half_even (a / pow2 e)) * pow2 e
                      then (if 0 < x then PosInf else NegInf)
                      else Finite (if 0 < x then of_int (round_half_even (a / pow2 e)) * pow2 e
                                   else - (of_int (round_half_even (a / pow2 e)) * pow2 e)))"
    unfolding fl_round_def Let_def a_def e_def using xn by simp
  also have "\<dots> = Finite (if 0 < x then a else - a)"
    unfolding r using nov by simp
  also have "\<dots> = Finite x"
    by (simp add: a_def)
  finally show ?thesis .
qed


lemma fl_round_scaled_int:
  assumes n: "\<bar>n\<bar> \<le> 2 ^ 53" and j: "- 1074 \<le> j" "j \<le> 969"
  shows "fl_round (of_int n * pow2 j) = Finite (of_int n * pow2 j)"
proof (cases "\<bar>n\<bar> < 2 ^ 53")
  case True
  show ?thesis
    by (rule fl_round_exact [OF refl True]) (use j in simp_all)
next
  case False
  with n have "n = 9007199254740992 \<or> n = - 9007199254740992" by simp linarith
  then have n2: "n = 2 * (n div 2)" and small: "\<bar>n div 2\<bar> < 2 ^ 53"
    by auto
  have "of_int n * pow2 j = of_int (n div 2) * pow2 (j + 1)"
  proof -
    have "pow2 (j + 1) = pow2 j * 2"
      by (simp add: pow2_add) (simp add: pow2_def)
    moreover have "(of_int n :: rat) = 2 * of_int (n div 2)"
      by (subst n2) simp
    ultimately show ?thesis by simp
  qed
  moreover have "fl_round (of_int (n div 2) * pow2 (j + 1)) = Finite (of_int (n div 2) * pow2 (j + 1))"
    by (rule fl_round_exact [OF refl small]) (use j in simp_all)
  ultimately show ?thesis by simp
qed

lemma mem_request_exact:
  assumes "mem_limit sp = Some n" and "\<bar>n\<bar> \<le> 2 ^ 53"
  shows "mem_request sp = Inr (Finite (of_int n / 1048576))"
proof -
  have r0: "fl_round (of_int n) = Finite (of_int n)"
    using fl_round_scaled_int [OF assms(2), of 0] by (simp add: pow2_def)
  have r1: "fl_round (of_int n / 1024) = Finite (of_int n / 1024)"
    using fl_round_scaled_int [OF assms(2), of "- 10"] by (simp add: pow2_def)
  have r2: "fl_round (of_int n / 1048576) = Finite (of_int n / 1048576)"
    using fl_round_scaled_int [OF assms(2), of "- 20"] by (simp add: pow2_def)
  show ?thesis
    by (simp add: mem_request_def assms(1) float_of_int_def truediv_1024_def r0 r1 r2)
qed

lemma bit_length_2p53: "bit_length 9007199254740993 = 54"
  by (simp add: bit_length.simps)

lemma fl_round_2p53_plus_1: "fl_round 9007199254740993 = Finite 9007199254740992"
proof -
  have il: "ilog2 9007199254740993 = 53"
    by (simp add: ilog2_def bit_length_2p53 bit_length.simps [of 1] bit_length.simps [of 0] pow2_def)
  have fl: "\<lfloor>9007199254740993 / 2 :: rat\<rfloor> = 4503599627370496"
    by (rule floor_unique) simp_all
  have rh: "round_half_even (9007199254740993 / 2) = 4503599627370496"
    by (simp add: round_half_even_def Let_def fl)
  have big: "\<not> pow2 1024 \<le> 9007199254740992"
    by (simp add: pow2_def)
  show ?thesis
    using big by (simp add: fl_round_def il Let_def pow2_def [of 1] rh)
qed

lemma example_mem_request: "mem_request example_spawner = Inr (Finite (3 / 2))"
  using mem_request_exact [of example_spawner 1572864] by (simp add: example_spawner_def)

subsection \<open>The memory request\<close>

text \<open>
  C7, as amended. For every memory limit of at most \<open>2\<^sup>5\<^sup>3\<close> bytes in magnitude (the
  integers that a float holds exactly), the memory request of the descriptor is the limit
  divided by 1048576, with no rounding: the conversion to a float and the two divisions by
  \<^verbatim>\<open>1024.0\<close> are all exact. So 1048576 bytes give 1.0 and 1572864 bytes give 1.5.
  (Above \<open>2\<^sup>5\<^sup>3\<close> the conversion of the limit to a float rounds: see the counterexample.)
\<close>

theorem mem_request_divides_exactly:
  assumes "mem_limit sp = Some n" and "\<bar>n\<bar> \<le> 2 ^ 53"
  shows "mem_request sp = Inr (Finite (of_int n / 1048576))
         \<and> (\<forall>req. build_app_request sp = Inr req \<longrightarrow> app_mem req = Finite (of_int n / 1048576))"
proof -
  have m: "mem_request sp = Inr (Finite (of_int n / 1048576))"
    using assms by (rule mem_request_exact)
  then have "app_mem req = Finite (of_int n / 1048576)" if "build_app_request sp = Inr req" for req
    using that by (auto simp: build_app_request_def Let_def split: sum.splits)
  with m show ?thesis by blast
qed

theorem mem_request_divides_exactly_witness:
  "mem_request mebibyte_spawner = Inr (Finite 1)
   \<and> mem_request example_spawner = Inr (Finite (3 / 2))"
  using mem_request_divides_exactly [of mebibyte_spawner 1048576]
    mem_request_divides_exactly [of example_spawner 1572864]
  by (simp add: mebibyte_spawner_def example_spawner_def)

theorem mem_request_rounds_counterexample:
  "mem_limit big_limit_spawner = Some 9007199254740993
   \<and> mem_request big_limit_spawner = Inr (Finite 8589934592)
   \<and> mem_request big_limit_spawner \<noteq> Inr (Finite (9007199254740993 / 1048576))"
proof -
  have r0: "fl_round (of_int 9007199254740993) = Finite 9007199254740992"
    using fl_round_2p53_plus_1 by simp
  have r1: "fl_round (9007199254740992 / 1024) = Finite 8796093022208"
    using fl_round_scaled_int [of 9007199254740992 "- 10"] by (simp add: pow2_def)
  have r2: "fl_round (8796093022208 / 1024) = Finite 8589934592"
    using fl_round_scaled_int [of 8796093022208 "- 10"] by (simp add: pow2_def)
  have "mem_request big_limit_spawner = Inr (Finite 8589934592)"
    using r0 r1 r2
    by (simp add: mem_request_def big_limit_spawner_def example_spawner_def float_of_int_def
        truediv_1024_def)
  then show ?thesis
    by (simp add: big_limit_spawner_def example_spawner_def)
qed

subsection \<open>The example configuration\<close>

lemma example_container_name: "container_name example_spawner = ''/jupyter/alice''"
  by (simp add: container_name_def example_spawner_def)

lemma example_get_env:
  "get_env example_spawner =
     Inr [(''JPY_USER'', ''alice''), (''JPY_COOKIE_NAME'', ''jupyter-hub-token-alice''),
          (''JPY_BASE_URL'', ''/user/alice''), (''JPY_HUB_PREFIX'', ''/hub''),
          (''JPY_HUB_API_URL'', ''http://127.0.0.1:8081/hub/api'')]"
  by (simp add: get_env_def example_spawner_def dict_update_def)

lemma example_build: "build_app_request example_spawner = Inr example_request"
  by (simp add: build_app_request_def example_mem_request example_get_env example_container_name
      get_constraints_def get_health_checks_def get_volumes_def get_port_mappings_def
      example_request_def)
    (simp add: example_spawner_def)

subsection \<open>The launch loop, the address and the log\<close>

lemma new_calls_append: "calls s' = calls s @ new \<Longrightarrow> new_calls s s' = new"
  by (simp add: new_calls_def)

lemma build_app_id: "build_app_request sp = Inr req \<Longrightarrow> app_id req = container_name sp"
  by (auto simp: build_app_request_def Let_def split: sum.splits)

lemma rounds_counts [simp]:
  "n_get_app (concat (replicate k [GetApp a e, Sleep d])) = k"
  "n_polls (concat (replicate k [GetApp a False, Sleep d])) = k"
  "seconds_slept (concat (replicate k [GetApp a e, Sleep d])) = int k * d"
  by (induction k) (simp_all add: algebra_simps)

lemma start_loop_not_ready:
  assumes "\<forall>i<k. \<not> healthy_reply (get_app_reply w (n_get_app (calls s) + i) (container_name sp) False)"
    and "k \<le> n"
  shows "start_loop sp w n s =
           start_loop sp w (n - k)
             (s\<lparr>calls := calls s @ concat (replicate k [GetApp (container_name sp) False, Sleep 1])\<rparr>)"
  using assms
proof (induction k arbitrary: n s)
  case 0
  then show ?case by simp
next
  case (Suc k)
  then obtain n' where n: "n = Suc n'" and kn: "k \<le> n'"
    by (cases n) auto
  let ?s1 = "time_sleep 1 (log_call (GetApp (container_name sp) False) s)"
  from Suc.prems(1) have h0: "\<not> healthy_reply (get_app_reply w (n_get_app (calls s)) (container_name sp) False)"
    by (metis add.right_neutral zero_less_Suc)
  have step: "start_loop sp w n s = start_loop sp w n' ?s1"
    using h0 by (simp add: n poll_eq)
  have idx: "n_get_app (calls ?s1) = Suc (n_get_app (calls s))"
    by (simp add: time_sleep_def)
  have "\<forall>i<k. \<not> healthy_reply (get_app_reply w (n_get_app (calls ?s1) + i) (container_name sp) False)"
    using Suc.prems(1) by (simp add: idx) (metis Suc_less_eq add_Suc_right)
  from Suc.IH [OF this kn]
  have "start_loop sp w n' ?s1 =
          start_loop sp w (n' - k)
            (?s1\<lparr>calls := calls ?s1 @ concat (replicate k [GetApp (container_name sp) False, Sleep 1])\<rparr>)" .
  moreover have "?s1\<lparr>calls := calls ?s1 @ concat (replicate k [GetApp (container_name sp) False, Sleep 1])\<rparr>
        = s\<lparr>calls := calls s @ concat (replicate (Suc k) [GetApp (container_name sp) False, Sleep 1])\<rparr>"
    by (simp add: time_sleep_def log_call_def)
  ultimately show ?case using step by (simp add: n)
qed

lemma get_ip_and_port_ok:
  assumes "get_app_reply w (n_get_app (calls s)) (container_name sp) True = Inr app"
    and "tasks app = [t]" and "gethostbyname_reply w (task_host t) = Some ip"
    and "task_ports t = p # ps"
  shows "get_ip_and_port sp w s =
           (Inr (ip, p),
            log_call (GetHostByName (task_host t)) (log_call (GetApp (container_name sp) True) s))"
  using assms by (simp add: get_ip_and_port_def marathon_get_app_def socket_gethostbyname_def)

lemma get_ip_and_port_server [simp]:
  "server_ip (snd (get_ip_and_port sp w s)) = server_ip s"
  "server_port (snd (get_ip_and_port sp w s)) = server_port s"
  by (auto simp: get_ip_and_port_def marathon_get_app_def socket_gethostbyname_def
      split: sum.splits list.splits option.splits)

lemma get_ip_and_port_log:
  "\<exists>tail. calls (snd (get_ip_and_port sp w s)) = calls s @ GetApp (container_name sp) True # tail
          \<and> list_all (keyed_by (container_name sp)) tail \<and> n_polls tail = 0
          \<and> seconds_slept tail = 0"
  by (auto simp: get_ip_and_port_def marathon_get_app_def socket_gethostbyname_def
      split: sum.splits list.splits option.splits)

lemma start_loop_log:
  "\<exists>new. calls (snd (start_loop sp w n s)) = calls s @ new
         \<and> list_all (keyed_by (container_name sp)) new \<and> n_polls new \<le> n
         \<and> seconds_slept new \<le> int (n_polls new)"
proof (induction n arbitrary: s)
  case 0
  then show ?case by simp
next
  case (Suc n)
  let ?cn = "container_name sp"
  let ?s0 = "log_call (GetApp ?cn False) s"
  show ?case
  proof (cases "healthy_reply (get_app_reply w (n_get_app (calls s)) ?cn False)")
    case True
    obtain tail where t: "calls (snd (get_ip_and_port sp w ?s0)) = calls ?s0 @ GetApp ?cn True # tail"
      "list_all (keyed_by ?cn) tail" "n_polls tail = 0" "seconds_slept tail = 0"
      using get_ip_and_port_log [of sp w ?s0] by blast
    have "calls (snd (start_loop sp w (Suc n) s)) = calls (snd (get_ip_and_port sp w ?s0))"
      using True by (simp add: poll_eq split: prod.splits sum.splits)
    then have "calls (snd (start_loop sp w (Suc n) s)) = calls s @ (GetApp ?cn False # GetApp ?cn True # tail)"
      using t(1) by simp
    moreover have "list_all (keyed_by ?cn) (GetApp ?cn False # GetApp ?cn True # tail)"
      using t(2) by simp
    moreover have "n_polls (GetApp ?cn False # GetApp ?cn True # tail) \<le> Suc n"
      using t(3) by simp
    moreover have "seconds_slept (GetApp ?cn False # GetApp ?cn True # tail)
                     \<le> int (n_polls (GetApp ?cn False # GetApp ?cn True # tail))"
      using t(3,4) by simp
    ultimately show ?thesis by blast
  next
    case False
    let ?s1 = "time_sleep 1 ?s0"
    obtain new where n: "calls (snd (start_loop sp w n ?s1)) = calls ?s1 @ new"
      "list_all (keyed_by ?cn) new" "n_polls new \<le> n" "seconds_slept new \<le> int (n_polls new)"
      using Suc.IH [of ?s1] by blast
    have "start_loop sp w (Suc n) s = start_loop sp w n ?s1"
      using False by (simp add: poll_eq)
    then have "calls (snd (start_loop sp w (Suc n) s)) = calls s @ (GetApp ?cn False # Sleep 1 # new)"
      using n(1) by (simp add: time_sleep_def)
    moreover have "list_all (keyed_by ?cn) (GetApp ?cn False # Sleep 1 # new)"
      using n(2) by simp
    moreover have "n_polls (GetApp ?cn False # Sleep 1 # new) \<le> Suc n"
      using n(3) by simp
    moreover have "seconds_slept (GetApp ?cn False # Sleep 1 # new)
                     \<le> int (n_polls (GetApp ?cn False # Sleep 1 # new))"
      using n(4) by simp
    ultimately show ?thesis by blast
  qed
qed

lemma start_loop_server:
  "(\<forall>ip port. fst (start_loop sp w n s) = Inr (Some (ip, port)) \<longrightarrow>
       server_ip (snd (start_loop sp w n s)) = ip \<and> server_port (snd (start_loop sp w n s)) = port)
   \<and> ((\<forall>ep. fst (start_loop sp w n s) \<noteq> Inr (Some ep)) \<longrightarrow>
       server_ip (snd (start_loop sp w n s)) = server_ip s
       \<and> server_port (snd (start_loop sp w n s)) = server_port s)"
proof (induction n arbitrary: s)
  case 0
  then show ?case by simp
next
  case (Suc n)
  let ?cn = "container_name sp"
  let ?s0 = "log_call (GetApp ?cn False) s"
  show ?case
  proof (cases "healthy_reply (get_app_reply w (n_get_app (calls s)) ?cn False)")
    case True
    show ?thesis
    proof (cases "get_ip_and_port sp w ?s0")
      case (Pair r s'')
      then have "server_ip s'' = server_ip s" "server_port s'' = server_port s"
        using get_ip_and_port_server [of sp w ?s0] by simp_all
      then show ?thesis
        using True Pair by (cases r) (auto simp: poll_eq)
    qed
  next
    case False
    let ?s1 = "time_sleep 1 ?s0"
    have "start_loop sp w (Suc n) s = start_loop sp w n ?s1"
      using False by (simp add: poll_eq)
    then show ?thesis
      using Suc.IH [of ?s1] by (simp add: time_sleep_def)
  qed
qed

lemma start_accepted:
  assumes "build_app_request sp = Inr req"
    and "create_app_reply w (container_name sp) req = Inr CreatedApp"
  shows "start sp w s =
           start_loop sp w (nat (start_timeout sp)) (log_call (CreateApp (container_name sp) req) s)"
  using assms by (simp add: start_def marathon_create_app_def)

lemma start_not_accepted:
  assumes "build_app_request sp = Inr req"
    and "create_app_reply w (container_name sp) req = Inl e
         \<or> create_app_reply w (container_name sp) req = Inr ReturnedFalse"
  shows "start sp w s = (Inr None, log_call (CreateApp (container_name sp) req) s)"
  using assms by (auto simp: start_def marathon_create_app_def)

lemma start_loop_ready:
  assumes "get_app_reply w (n_get_app (calls s)) (container_name sp) False = Inr app"
    and "tasks_healthy app = 1"
    and "get_app_reply w (Suc (n_get_app (calls s))) (container_name sp) True = Inr app'"
    and "tasks app' = [t]" and "gethostbyname_reply w (task_host t) = Some ip"
    and "task_ports t = p # ps"
  shows "fst (start_loop sp w (Suc n) s) = Inr (Some (ip, p))"
proof -
  let ?s0 = "log_call (GetApp (container_name sp) False) s"
  have "get_app_reply w (n_get_app (calls ?s0)) (container_name sp) True = Inr app'"
    using assms(3) by simp
  from get_ip_and_port_ok [OF this assms(4,5,6)] show ?thesis
    using assms(1,2) by (simp add: poll_eq healthy_reply_def)
qed

lemma start_loop_discovery_fails:
  assumes "get_app_reply w (n_get_app (calls s)) (container_name sp) False = Inr app"
    and "tasks_healthy app = 1"
    and "get_app_reply w (Suc (n_get_app (calls s))) (container_name sp) True = Inl e"
  shows "fst (start_loop sp w (Suc n) s) = Inl (ClientError e)"
  using assms
  by (simp add: poll_eq healthy_reply_def get_ip_and_port_def marathon_get_app_def)

lemma start_log:
  "\<exists>new. calls (snd (start sp w s)) = calls s @ new \<and> list_all (keyed_by (container_name sp)) new"
proof (cases "build_app_request sp")
  case (Inl e)
  then show ?thesis by (simp add: start_def)
next
  case (Inr req)
  let ?cn = "container_name sp"
  let ?s0 = "log_call (CreateApp ?cn req) s"
  have key: "keyed_by ?cn (CreateApp ?cn req)"
    using build_app_id [OF Inr] by simp
  show ?thesis
  proof (cases "create_app_reply w ?cn req = Inr CreatedApp")
    case True
    obtain new where new: "calls (snd (start_loop sp w (nat (start_timeout sp)) ?s0)) = calls ?s0 @ new"
      "list_all (keyed_by ?cn) new"
      using start_loop_log [of sp w "nat (start_timeout sp)" ?s0] by blast
    have "calls (snd (start sp w s)) = calls s @ (CreateApp ?cn req # new)"
      by (simp add: start_accepted [OF Inr True] new(1))
    moreover have "list_all (keyed_by ?cn) (CreateApp ?cn req # new)"
      using key new(2) by simp
    ultimately show ?thesis by blast
  next
    case False
    then have "create_app_reply w ?cn req = Inr ReturnedFalse \<or> (\<exists>e. create_app_reply w ?cn req = Inl e)"
      by (cases "create_app_reply w ?cn req") (auto intro: create_result.exhaust)
    then have "start sp w s = (Inr None, ?s0)"
      using start_not_accepted [OF Inr, of w _ s] by blast
    then have "calls (snd (start sp w s)) = calls s @ [CreateApp ?cn req]"
      by simp
    moreover have "list_all (keyed_by ?cn) [CreateApp ?cn req]"
      using key by simp
    ultimately show ?thesis by blast
  qed
qed

lemma start_first_call:
  assumes "build_app_request sp = Inr req"
  shows "\<exists>rest. calls (snd (start sp w s)) = calls s @ CreateApp (container_name sp) req # rest"
proof -
  let ?cn = "container_name sp"
  let ?s0 = "log_call (CreateApp ?cn req) s"
  show ?thesis
  proof (cases "create_app_reply w ?cn req = Inr CreatedApp")
    case True
    obtain new where "calls (snd (start_loop sp w (nat (start_timeout sp)) ?s0)) = calls ?s0 @ new"
      using start_loop_log [of sp w "nat (start_timeout sp)" ?s0] by blast
    then show ?thesis
      by (simp add: start_accepted [OF assms True])
  next
    case False
    then have "create_app_reply w ?cn req = Inr ReturnedFalse \<or> (\<exists>e. create_app_reply w ?cn req = Inl e)"
      by (cases "create_app_reply w ?cn req") (auto intro: create_result.exhaust)
    then have "start sp w s = (Inr None, ?s0)"
      using start_not_accepted [OF assms, of w _ s] by blast
    then show ?thesis by simp
  qed
qed

lemma example_ready_result:
  "fst (start example_spawner world_ready fresh_state) = Inr (Some (''10.0.0.7'', 31000))"
proof -
  have a: "create_app_reply world_ready (container_name example_spawner) example_request = Inr CreatedApp"
    by (simp add: world_ready_def world_transient_def)
  have T: "nat (start_timeout example_spawner) = Suc 4"
    by (simp add: example_spawner_def)
  show ?thesis
    unfolding start_accepted [OF example_build a] T
    by (rule start_loop_ready [where app = one_task_app and app' = one_task_app
          and t = "\<lparr>task_host = ''node1'', task_ports = [31000, 31001]\<rparr>" and ps = "[31001]"])
      (simp_all add: world_ready_def world_transient_def one_task_app_def resolver_table_def)
qed

lemma example_timeout_result:
  "fst (start example_spawner world_never_healthy fresh_state) = Inr None"
proof -
  let ?cn = "container_name example_spawner"
  let ?s0 = "log_call (CreateApp ?cn example_request) fresh_state"
  have a: "create_app_reply world_never_healthy ?cn example_request = Inr CreatedApp"
    by (simp add: world_never_healthy_def)
  have nr: "\<forall>i<nat (start_timeout example_spawner).
      \<not> healthy_reply (get_app_reply world_never_healthy (n_get_app (calls ?s0) + i) ?cn False)"
    by (simp add: world_never_healthy_def healthy_reply_def)
  show ?thesis
    unfolding start_accepted [OF example_build a]
    by (subst start_loop_not_ready [OF nr]) simp_all
qed

subsection \<open>Failed queries during a launch\<close>

text \<open>
  C1, as amended. In every iteration of the loop of \<^verbatim>\<open>start\<close> in which the query of
  \<^verbatim>\<open>poll\<close> fails (the workload is not found, the orchestrator cannot be reached, or any
  other error of the client), the failure is treated as "still starting": \<^verbatim>\<open>start\<close> sleeps
  one second and goes on with the next iteration. So when the first \<open>k\<close> polls, fewer than
  \<^verbatim>\<open>start_timeout\<close>, each fail or report no healthy task, in any order, the launch has
  made \<open>k\<close> queries, slept one second after each, and is in its loop with the remaining
  iterations. If the next poll reports exactly one healthy task, \<^verbatim>\<open>start\<close> returns the
  resolved address with the first bound port, provided the address discovery of that
  iteration succeeds: its own query is answered with exactly one task, whose host resolves
  and which has a bound port. The query of the discovery is not protected: when it fails,
  the loop is left and the client's exception leaves \<^verbatim>\<open>start\<close>.
\<close>

theorem start_poll_failure_continues:
  "(\<forall>n s1. isl (get_app_reply w (n_get_app (calls s1)) (container_name sp) False) \<longrightarrow>
       start_loop sp w (Suc n) s1
         = start_loop sp w n (time_sleep 1 (log_call (GetApp (container_name sp) False) s1)))
   \<and> (\<forall>req k.
         build_app_request sp = Inr req
         \<and> create_app_reply w (container_name sp) req = Inr CreatedApp
         \<and> k < nat (start_timeout sp)
         \<and> (\<forall>i<k. \<not> healthy_reply
                       (get_app_reply w (n_get_app (calls s) + i) (container_name sp) False))
         \<longrightarrow>
         start sp w s =
           start_loop sp w (nat (start_timeout sp) - k)
             (s\<lparr>calls := calls s @ CreateApp (container_name sp) req
                     # concat (replicate k [GetApp (container_name sp) False, Sleep 1])\<rparr>)
         \<and> (\<forall>app app' t ip p ps.
               get_app_reply w (n_get_app (calls s) + k) (container_name sp) False = Inr app
               \<and> tasks_healthy app = 1
               \<and> get_app_reply w (n_get_app (calls s) + k + 1) (container_name sp) True = Inr app'
               \<and> tasks app' = [t]
               \<and> gethostbyname_reply w (task_host t) = Some ip
               \<and> task_ports t = p # ps
               \<longrightarrow> fst (start sp w s) = Inr (Some (ip, p)))
         \<and> (\<forall>app e.
               get_app_reply w (n_get_app (calls s) + k) (container_name sp) False = Inr app
               \<and> tasks_healthy app = 1
               \<and> get_app_reply w (n_get_app (calls s) + k + 1) (container_name sp) True = Inl e
               \<longrightarrow> fst (start sp w s) = Inl (ClientError e)))"
proof -
  let ?cn = "container_name sp"
  let ?T = "nat (start_timeout sp)"
  have step: "start_loop sp w (Suc n) s1 = start_loop sp w n (time_sleep 1 (log_call (GetApp ?cn False) s1))"
    if "isl (get_app_reply w (n_get_app (calls s1)) ?cn False)" for n s1
    using that by (auto simp: poll_eq healthy_reply_def isl_def)
  have run: "start sp w s =
           start_loop sp w (?T - k)
             (s\<lparr>calls := calls s @ CreateApp ?cn req # concat (replicate k [GetApp ?cn False, Sleep 1])\<rparr>)
         \<and> (\<forall>app app' t ip p ps.
               get_app_reply w (n_get_app (calls s) + k) ?cn False = Inr app
               \<and> tasks_healthy app = 1
               \<and> get_app_reply w (n_get_app (calls s) + k + 1) ?cn True = Inr app'
               \<and> tasks app' = [t]
               \<and> gethostbyname_reply w (task_host t) = Some ip
               \<and> task_ports t = p # ps
               \<longrightarrow> fst (start sp w s) = Inr (Some (ip, p)))
         \<and> (\<forall>app e.
               get_app_reply w (n_get_app (calls s) + k) ?cn False = Inr app
               \<and> tasks_healthy app = 1
               \<and> get_app_reply w (n_get_app (calls s) + k + 1) ?cn True = Inl e
               \<longrightarrow> fst (start sp w s) = Inl (ClientError e))"
    if build: "build_app_request sp = Inr req"
      and accepted: "create_app_reply w ?cn req = Inr CreatedApp"
      and k: "k < ?T"
      and not_ready: "\<forall>i<k. \<not> healthy_reply (get_app_reply w (n_get_app (calls s) + i) ?cn False)"
    for req k
  proof -
    let ?s0 = "log_call (CreateApp ?cn req) s"
    let ?sk = "s\<lparr>calls := calls s @ CreateApp ?cn req # concat (replicate k [GetApp ?cn False, Sleep 1])\<rparr>"
    have nr: "\<forall>i<k. \<not> healthy_reply (get_app_reply w (n_get_app (calls ?s0) + i) ?cn False)"
      using not_ready by simp
    have "start sp w s = start_loop sp w ?T ?s0"
      using build accepted by (rule start_accepted)
    also have "\<dots> = start_loop sp w (?T - k)
                       (?s0\<lparr>calls := calls ?s0 @ concat (replicate k [GetApp ?cn False, Sleep 1])\<rparr>)"
      using nr k by (intro start_loop_not_ready) simp_all
    also have "?s0\<lparr>calls := calls ?s0 @ concat (replicate k [GetApp ?cn False, Sleep 1])\<rparr> = ?sk"
      by (simp add: log_call_def)
    finally have loop: "start sp w s = start_loop sp w (?T - k) ?sk" .
    obtain m where m: "?T - k = Suc m"
      using k by (cases "?T - k") simp_all
    have idx: "n_get_app (calls ?sk) = n_get_app (calls s) + k"
      by simp
    have ready: "fst (start sp w s) = Inr (Some (ip, p))"
      if "get_app_reply w (n_get_app (calls s) + k) ?cn False = Inr app"
        and "tasks_healthy app = 1"
        and "get_app_reply w (n_get_app (calls s) + k + 1) ?cn True = Inr app'"
        and "tasks app' = [t]" and "gethostbyname_reply w (task_host t) = Some ip"
        and "task_ports t = p # ps"
      for app app' t ip p ps
      unfolding loop m
      by (rule start_loop_ready [where app = app and app' = app' and t = t and ps = ps])
        (use that idx in simp_all)
    have escapes: "fst (start sp w s) = Inl (ClientError e)"
      if "get_app_reply w (n_get_app (calls s) + k) ?cn False = Inr app"
        and "tasks_healthy app = 1"
        and "get_app_reply w (n_get_app (calls s) + k + 1) ?cn True = Inl e"
      for app e
      unfolding loop m
      by (rule start_loop_discovery_fails [where app = app]) (use that idx in simp_all)
    from loop ready escapes show ?thesis by blast
  qed
  from step run show ?thesis by blast
qed

theorem start_poll_failure_continues_witness:
  "fst (start example_spawner world_transient fresh_state) = Inr (Some (''10.0.0.7'', 31000))"
proof -
  have h: "build_app_request example_spawner = Inr example_request
     \<and> create_app_reply world_transient (container_name example_spawner) example_request
         = Inr CreatedApp
     \<and> 3 < nat (start_timeout example_spawner)
     \<and> (\<forall>i<3. \<not> healthy_reply
                  (get_app_reply world_transient (n_get_app (calls fresh_state) + i)
                     (container_name example_spawner) False))"
    by (simp add: example_build world_transient_def healthy_reply_def fresh_state_def)
      (simp add: example_spawner_def)
  note t = start_poll_failure_continues [of world_transient example_spawner fresh_state,
      THEN conjunct2, rule_format, OF h, THEN conjunct2, THEN conjunct1, rule_format,
      of one_task_app one_task_app "\<lparr>task_host = ''node1'', task_ports = [31000, 31001]\<rparr>"
        "''10.0.0.7''" 31000 "[31001]"]
  show ?thesis
    by (rule t) (simp add: world_transient_def fresh_state_def one_task_app_def resolver_table_def)
qed

theorem start_discovery_query_failure_counterexample:
  "get_app_reply world_discovery_fails 0 (container_name example_spawner) False
     = Inl WorkloadNotFound
   \<and> get_app_reply world_discovery_fails 3 (container_name example_spawner) False
     = Inr one_task_app
   \<and> tasks_healthy one_task_app = 1
   \<and> get_app_reply world_discovery_fails 4 (container_name example_spawner) True
     = Inl OrchestratorUnreachable
   \<and> fst (start example_spawner world_discovery_fails fresh_state)
     = Inl (ClientError OrchestratorUnreachable)"
proof -
  let ?cn = "container_name example_spawner"
  let ?s0 = "log_call (CreateApp ?cn example_request) fresh_state"
  have a: "create_app_reply world_discovery_fails ?cn example_request = Inr CreatedApp"
    by (simp add: world_discovery_fails_def world_transient_def)
  have nr: "\<forall>i<3. \<not> healthy_reply (get_app_reply world_discovery_fails (n_get_app (calls ?s0) + i) ?cn False)"
    by (simp add: world_discovery_fails_def healthy_reply_def fresh_state_def)
  have T: "nat (start_timeout example_spawner) = 5"
    by (simp add: example_spawner_def)
  have r: "start example_spawner world_discovery_fails fresh_state
          = start_loop example_spawner world_discovery_fails (5 - 3)
              (?s0\<lparr>calls := calls ?s0 @ concat (replicate 3 [GetApp ?cn False, Sleep 1])\<rparr>)"
    unfolding start_accepted [OF example_build a] T
    by (rule start_loop_not_ready [OF nr]) simp
  have e: "(5::nat) - 3 = Suc (Suc 0)" by simp
  have run: "start example_spawner world_discovery_fails fresh_state
          = start_loop example_spawner world_discovery_fails (Suc (Suc 0))
              (?s0\<lparr>calls := calls ?s0 @ concat (replicate 3 [GetApp ?cn False, Sleep 1])\<rparr>)"
    using r unfolding e .
  have "fst (start example_spawner world_discovery_fails fresh_state)
          = Inl (ClientError OrchestratorUnreachable)"
    unfolding run
    by (rule start_loop_discovery_fails [where app = one_task_app])
      (simp_all add: world_discovery_fails_def one_task_app_def fresh_state_def
        del: replicate.simps concat_replicate_trivial)
  then show ?thesis
    by (simp add: world_discovery_fails_def one_task_app_def)
qed

subsection \<open>The bound of the launch loop\<close>

text \<open>
  C2. After an accepted submission, \<^verbatim>\<open>start\<close> makes at most \<^verbatim>\<open>start_timeout\<close> status
  queries, and sleeps at most one second per query. If no query within that bound reports
  exactly one healthy task (each one fails or reports another count), \<^verbatim>\<open>start\<close> returns
  \<^verbatim>\<open>None\<close>, the result of a launch that timed out, and no exception: it has then made
  exactly \<^verbatim>\<open>start_timeout\<close> queries, each followed by a sleep of one second.
\<close>

theorem start_bounded_and_times_out:
  assumes build: "build_app_request sp = Inr req"
    and accepted: "create_app_reply w (container_name sp) req = Inr CreatedApp"
  shows "n_polls (new_calls s (snd (start sp w s))) \<le> nat (start_timeout sp)
         \<and> seconds_slept (new_calls s (snd (start sp w s)))
             \<le> int (n_polls (new_calls s (snd (start sp w s))))
         \<and> ((\<forall>i<nat (start_timeout sp).
                \<not> healthy_reply (get_app_reply w (n_get_app (calls s) + i) (container_name sp) False))
              \<longrightarrow> fst (start sp w s) = Inr None
                  \<and> new_calls s (snd (start sp w s)) =
                      CreateApp (container_name sp) req
                      # concat (replicate (nat (start_timeout sp))
                                 [GetApp (container_name sp) False, Sleep 1]))"
proof -
  let ?cn = "container_name sp"
  let ?T = "nat (start_timeout sp)"
  let ?s0 = "log_call (CreateApp ?cn req) s"
  have st: "start sp w s = start_loop sp w ?T ?s0"
    using build accepted by (rule start_accepted)
  obtain new where new: "calls (snd (start_loop sp w ?T ?s0)) = calls ?s0 @ new"
    "n_polls new \<le> ?T" "seconds_slept new \<le> int (n_polls new)"
    using start_loop_log [of sp w ?T ?s0] by blast
  have nc: "new_calls s (snd (start sp w s)) = CreateApp ?cn req # new"
    by (rule new_calls_append) (simp add: st new(1))
  have bound: "n_polls (new_calls s (snd (start sp w s))) \<le> ?T"
    "seconds_slept (new_calls s (snd (start sp w s))) \<le> int (n_polls (new_calls s (snd (start sp w s))))"
    using new(2,3) by (simp_all add: nc)
  have timeout: "fst (start sp w s) = Inr None
       \<and> new_calls s (snd (start sp w s)) =
           CreateApp ?cn req # concat (replicate ?T [GetApp ?cn False, Sleep 1])"
    if nr: "\<forall>i<?T. \<not> healthy_reply (get_app_reply w (n_get_app (calls s) + i) ?cn False)"
  proof -
    have "\<forall>i<?T. \<not> healthy_reply (get_app_reply w (n_get_app (calls ?s0) + i) ?cn False)"
      using nr by simp
    then have "start_loop sp w ?T ?s0 =
                 start_loop sp w (?T - ?T)
                   (?s0\<lparr>calls := calls ?s0 @ concat (replicate ?T [GetApp ?cn False, Sleep 1])\<rparr>)"
      by (rule start_loop_not_ready) simp
    then have eq: "start sp w s =
        (Inr None, ?s0\<lparr>calls := calls ?s0 @ concat (replicate ?T [GetApp ?cn False, Sleep 1])\<rparr>)"
      by (simp add: st)
    have "new_calls s (snd (start sp w s)) =
            CreateApp ?cn req # concat (replicate ?T [GetApp ?cn False, Sleep 1])"
      by (rule new_calls_append) (simp add: eq)
    with eq show ?thesis by simp
  qed
  from bound timeout show ?thesis by blast
qed

theorem start_bounded_and_times_out_witness:
  "fst (start example_spawner world_never_healthy fresh_state) = Inr None
   \<and> n_polls (new_calls fresh_state (snd (start example_spawner world_never_healthy fresh_state))) = 5
   \<and> seconds_slept
        (new_calls fresh_state (snd (start example_spawner world_never_healthy fresh_state))) = 5"
proof -
  have a: "create_app_reply world_never_healthy (container_name example_spawner) example_request
             = Inr CreatedApp"
    by (simp add: world_never_healthy_def)
  have nr: "\<forall>i<nat (start_timeout example_spawner).
              \<not> healthy_reply (get_app_reply world_never_healthy (n_get_app (calls fresh_state) + i)
                                 (container_name example_spawner) False)"
    by (simp add: world_never_healthy_def healthy_reply_def)
  have T: "nat (start_timeout example_spawner) = 5"
    by (simp add: example_spawner_def)
  from start_bounded_and_times_out [OF example_build a, of fresh_state] nr
  have "fst (start example_spawner world_never_healthy fresh_state) = Inr None"
    and "new_calls fresh_state (snd (start example_spawner world_never_healthy fresh_state)) =
           CreateApp (container_name example_spawner) example_request
           # concat (replicate 5 [GetApp (container_name example_spawner) False, Sleep 1])"
    unfolding T by blast+
  then show ?thesis
    by (simp del: replicate.simps concat_replicate_trivial)
qed

subsection \<open>A failed submission\<close>

text \<open>
  C3, as amended. A submission that fails, whether \<^verbatim>\<open>create_app\<close> returns \<^verbatim>\<open>False\<close> or
  raises any exception (a rejection, an unreachable orchestrator, anything else), ends the
  launch with the same result \<^verbatim>\<open>None\<close>: the code does not tell a rejection from an
  unreachable orchestrator. In either case the only call made is the submission: no status
  query, no sleep, no delete.
\<close>

theorem start_submit_failure_returns_none:
  assumes build: "build_app_request sp = Inr req"
    and failed: "create_app_reply w (container_name sp) req = Inl e
                 \<or> create_app_reply w (container_name sp) req = Inr ReturnedFalse"
  shows "fst (start sp w s) = Inr None
         \<and> new_calls s (snd (start sp w s)) = [CreateApp (container_name sp) req]"
proof -
  have eq: "start sp w s = (Inr None, log_call (CreateApp (container_name sp) req) s)"
    using build failed by (rule start_not_accepted)
  have "new_calls s (snd (start sp w s)) = [CreateApp (container_name sp) req]"
    by (rule new_calls_append) (simp add: eq)
  with eq show ?thesis by simp
qed

theorem start_submit_failure_returns_none_witness:
  "fst (start example_spawner world_unreachable fresh_state) = Inr None
   \<and> new_calls fresh_state (snd (start example_spawner world_unreachable fresh_state))
       = [CreateApp ''/jupyter/alice'' example_request]"
  using start_submit_failure_returns_none [OF example_build, of world_unreachable
      OrchestratorUnreachable fresh_state]
  by (simp add: world_unreachable_def world_transient_def example_container_name)

theorem start_rejected_equals_unreachable_counterexample:
  "create_app_reply world_rejected (container_name example_spawner) example_request
     = Inr ReturnedFalse
   \<and> create_app_reply world_unreachable (container_name example_spawner) example_request
     = Inl OrchestratorUnreachable
   \<and> start example_spawner world_rejected fresh_state
     = start example_spawner world_unreachable fresh_state"
proof -
  have r: "create_app_reply world_rejected (container_name example_spawner) example_request
             = Inr ReturnedFalse"
    by (simp add: world_rejected_def)
  have u: "create_app_reply world_unreachable (container_name example_spawner) example_request
             = Inl OrchestratorUnreachable"
    by (simp add: world_unreachable_def)
  from r u show ?thesis
    by (simp add: start_not_accepted [OF example_build])
qed

subsection \<open>Address resolution\<close>

text \<open>
  C5, as amended. \<^verbatim>\<open>get_ip_and_port\<close>, when the orchestrator answers its query with an
  application: with exactly one task, of host \<open>h\<close> and ports \<open>p, ...\<close>, it returns the
  address that \<open>h\<close> resolves to, with the first port \<open>p\<close>; with no task, or two or more,
  its \<^verbatim>\<open>assert\<close> fails and the \<^verbatim>\<open>AssertionError\<close> escapes; with one task whose host does
  not resolve, the error of the resolver (\<^verbatim>\<open>socket.gaierror\<close>, here \<open>HostLookupError\<close>)
  escapes. The code has no typed error of its own for either failure: nothing raises an
  \<^verbatim>\<open>AmbiguousTaskCount\<close> or a \<^verbatim>\<open>HostResolutionFailed\<close>.
\<close>

theorem get_ip_and_port_resolves:
  assumes "get_app_reply w (n_get_app (calls s)) (container_name sp) True = Inr app"
  shows "(\<forall>t ip p ps.
            tasks app = [t] \<and> gethostbyname_reply w (task_host t) = Some ip
            \<and> task_ports t = p # ps
            \<longrightarrow> fst (get_ip_and_port sp w s) = Inr (ip, p))
         \<and> (length (tasks app) \<noteq> 1 \<longrightarrow> fst (get_ip_and_port sp w s) = Inl AssertionError)
         \<and> (\<forall>t. tasks app = [t] \<and> gethostbyname_reply w (task_host t) = None
               \<longrightarrow> fst (get_ip_and_port sp w s) = Inl HostLookupError)"
proof -
  have ok: "fst (get_ip_and_port sp w s) = Inr (ip, p)"
    if "tasks app = [t]" "gethostbyname_reply w (task_host t) = Some ip" "task_ports t = p # ps"
    for t ip p ps
    using get_ip_and_port_ok [OF assms that] by simp
  have amb: "fst (get_ip_and_port sp w s) = Inl AssertionError" if "length (tasks app) \<noteq> 1"
    using that assms
    by (auto simp: get_ip_and_port_def marathon_get_app_def split: list.splits)
  have look: "fst (get_ip_and_port sp w s) = Inl HostLookupError"
    if "tasks app = [t]" "gethostbyname_reply w (task_host t) = None" for t
    using that assms
    by (simp add: get_ip_and_port_def marathon_get_app_def socket_gethostbyname_def)
  from ok amb look show ?thesis by blast
qed

theorem get_ip_and_port_resolves_witness:
  "fst (get_ip_and_port example_spawner world_ready fresh_state) = Inr (''10.0.0.7'', 31000)
   \<and> fst (get_ip_and_port example_spawner world_never_healthy fresh_state) = Inl AssertionError
   \<and> fst (get_ip_and_port example_spawner world_two_tasks fresh_state) = Inl AssertionError
   \<and> fst (get_ip_and_port example_spawner world_unknown_host fresh_state) = Inl HostLookupError"
proof -
  have a: "fst (get_ip_and_port example_spawner world_ready fresh_state) = Inr (''10.0.0.7'', 31000)"
    using get_ip_and_port_resolves [of world_ready fresh_state example_spawner one_task_app]
    by (simp add: world_ready_def world_transient_def one_task_app_def resolver_table_def)
  have b: "fst (get_ip_and_port example_spawner world_never_healthy fresh_state) = Inl AssertionError"
    using get_ip_and_port_resolves [of world_never_healthy fresh_state example_spawner
        "\<lparr>tasks_healthy = 0, tasks = []\<rparr>"]
    by (simp add: world_never_healthy_def)
  have c: "fst (get_ip_and_port example_spawner world_two_tasks fresh_state) = Inl AssertionError"
    using get_ip_and_port_resolves [of world_two_tasks fresh_state example_spawner
        "\<lparr>tasks_healthy = 1,
          tasks = [\<lparr>task_host = ''node1'', task_ports = [31000]\<rparr>,
                   \<lparr>task_host = ''node2'', task_ports = [31000]\<rparr>]\<rparr>"]
    by (simp add: world_two_tasks_def)
  have d: "fst (get_ip_and_port example_spawner world_unknown_host fresh_state) = Inl HostLookupError"
    using get_ip_and_port_resolves [of world_unknown_host fresh_state example_spawner
        "\<lparr>tasks_healthy = 1, tasks = [\<lparr>task_host = ''node9'', task_ports = [31000]\<rparr>]\<rparr>"]
    by (simp add: world_unknown_host_def world_transient_def resolver_table_def)
  from a b c d show ?thesis by simp
qed

theorem get_ip_and_port_untyped_errors_counterexample:
  "fst (get_ip_and_port example_spawner world_never_healthy fresh_state) = Inl AssertionError
   \<and> fst (get_ip_and_port example_spawner world_two_tasks fresh_state) = Inl AssertionError
   \<and> fst (get_ip_and_port example_spawner world_unknown_host fresh_state) = Inl HostLookupError"
  by (simp add: get_ip_and_port_def marathon_get_app_def socket_gethostbyname_def
      world_never_healthy_def world_two_tasks_def world_unknown_host_def world_transient_def
      resolver_table_def fresh_state_def)

subsection \<open>Teardown\<close>

text \<open>
  C6, as amended. \<^verbatim>\<open>stop\<close> calls \<^verbatim>\<open>delete_app\<close> on the workload's name, once and
  unconditionally, and its outcome is the outcome of that call: \<^verbatim>\<open>stop\<close> returns without
  an error exactly when the client's delete returns, and every error the client raises,
  also the one for a workload that does not exist, leaves \<^verbatim>\<open>stop\<close>. When the client's
  delete returns both times, calling \<^verbatim>\<open>stop\<close> twice gives \<^verbatim>\<open>None\<close> both times.
\<close>

theorem stop_returns_what_delete_returns:
  "(fst (stop sp w s) = Inr ()
      \<longleftrightarrow> delete_app_reply w (n_delete_app (calls s)) (container_name sp) = Inr ())
   \<and> (\<forall>e. delete_app_reply w (n_delete_app (calls s)) (container_name sp) = Inl e
          \<longrightarrow> fst (stop sp w s) = Inl (ClientError e))
   \<and> new_calls s (snd (stop sp w s)) = [DeleteApp (container_name sp)]
   \<and> (delete_app_reply w (n_delete_app (calls s)) (container_name sp) = Inr ()
       \<and> delete_app_reply w (Suc (n_delete_app (calls s))) (container_name sp) = Inr ()
       \<longrightarrow> fst (stop sp w s) = Inr ()
           \<and> fst (stop sp w (snd (stop sp w s))) = Inr ()
           \<and> new_calls s (snd (stop sp w (snd (stop sp w s))))
               = [DeleteApp (container_name sp), DeleteApp (container_name sp)])"
proof -
  let ?cn = "container_name sp"
  let ?s1 = "log_call (DeleteApp ?cn) s"
  have st: "snd (stop sp w s') = log_call (DeleteApp ?cn) s'" for s'
    by (simp add: stop_def marathon_delete_app_def split: sum.splits)
  have res: "fst (stop sp w s') =
               (case delete_app_reply w (n_delete_app (calls s')) ?cn of
                  Inl e \<Rightarrow> Inl (ClientError e) | Inr u \<Rightarrow> Inr ())" for s'
    by (simp add: stop_def marathon_delete_app_def split: sum.splits)
  have iff: "fst (stop sp w s) = Inr () \<longleftrightarrow> delete_app_reply w (n_delete_app (calls s)) ?cn = Inr ()"
    by (simp add: res split: sum.splits)
  have err: "fst (stop sp w s) = Inl (ClientError e)"
    if "delete_app_reply w (n_delete_app (calls s)) ?cn = Inl e" for e
    using that by (simp add: res)
  have one: "new_calls s (snd (stop sp w s)) = [DeleteApp ?cn]"
    by (rule new_calls_append) (simp add: st)
  have twice: "fst (stop sp w s) = Inr () \<and> fst (stop sp w (snd (stop sp w s))) = Inr ()
      \<and> new_calls s (snd (stop sp w (snd (stop sp w s)))) = [DeleteApp ?cn, DeleteApp ?cn]"
    if "delete_app_reply w (n_delete_app (calls s)) ?cn = Inr ()"
      and "delete_app_reply w (Suc (n_delete_app (calls s))) ?cn = Inr ()"
  proof -
    have "new_calls s (snd (stop sp w (snd (stop sp w s)))) = [DeleteApp ?cn, DeleteApp ?cn]"
      by (rule new_calls_append) (simp add: st)
    then show ?thesis
      using that by (simp add: res st)
  qed
  from iff err one twice show ?thesis by blast
qed

theorem stop_returns_what_delete_returns_witness:
  "fst (stop example_spawner world_transient fresh_state) = Inr ()
   \<and> fst (stop example_spawner world_transient
            (snd (stop example_spawner world_transient fresh_state))) = Inr ()
   \<and> fst (stop example_spawner world_delete_not_found fresh_state)
       = Inl (ClientError WorkloadNotFound)"
  using stop_returns_what_delete_returns [of example_spawner world_transient fresh_state]
    stop_returns_what_delete_returns [of example_spawner world_delete_not_found fresh_state]
  by (simp add: world_transient_def world_delete_not_found_def)

theorem stop_not_found_escapes_counterexample:
  "delete_app_reply world_delete_not_found 0 (container_name example_spawner) = Inl WorkloadNotFound
   \<and> fst (stop example_spawner world_delete_not_found fresh_state)
       = Inl (ClientError WorkloadNotFound)
   \<and> fst (stop example_spawner world_delete_not_found
            (snd (stop example_spawner world_delete_not_found fresh_state)))
       = Inl (ClientError WorkloadNotFound)"
  by (simp add: stop_def marathon_delete_app_def world_delete_not_found_def world_transient_def
      fresh_state_def)

subsection \<open>The name of the workload\<close>

text \<open>
  C8. The name of the workload is \<^verbatim>\<open><prefix>/<user>\<close>, as the help of \<^verbatim>\<open>app_prefix\<close>
  says, written as a path from the root (\<^verbatim>\<open>/<prefix>/<user>\<close>): it is computed from the
  configured prefix and the user's name alone. It is the name passed to every call of the
  orchestrator: the submission of \<^verbatim>\<open>start\<close> (as the argument and as the \<^verbatim>\<open>id\<close> of the
  descriptor) and all its queries, the query of \<^verbatim>\<open>poll\<close>, the query of
  \<^verbatim>\<open>get_ip_and_port\<close>, and the delete of \<^verbatim>\<open>stop\<close>.
\<close>

theorem container_name_is_the_key:
  "container_name sp = ''/'' @ app_prefix sp @ ''/'' @ user_name sp
   \<and> list_all (keyed_by (container_name sp)) (new_calls s (snd (start sp w s)))
   \<and> (\<forall>req. build_app_request sp = Inr req \<longrightarrow>
         app_id req = container_name sp
         \<and> (\<exists>rest. new_calls s (snd (start sp w s)) = CreateApp (container_name sp) req # rest))
   \<and> new_calls s (snd (poll sp w s)) = [GetApp (container_name sp) False]
   \<and> (\<exists>rest. new_calls s (snd (get_ip_and_port sp w s)) = GetApp (container_name sp) True # rest
              \<and> list_all (keyed_by (container_name sp)) rest)
   \<and> new_calls s (snd (stop sp w s)) = [DeleteApp (container_name sp)]"
proof -
  let ?cn = "container_name sp"
  have name: "?cn = ''/'' @ app_prefix sp @ ''/'' @ user_name sp"
    by (simp add: container_name_def)
  obtain new where new: "calls (snd (start sp w s)) = calls s @ new" "list_all (keyed_by ?cn) new"
    using start_log [of sp w s] by blast
  have st: "list_all (keyed_by ?cn) (new_calls s (snd (start sp w s)))"
    using new by (simp add: new_calls_append)
  have first: "app_id req = ?cn \<and> (\<exists>rest. new_calls s (snd (start sp w s)) = CreateApp ?cn req # rest)"
    if b: "build_app_request sp = Inr req" for req
  proof -
    obtain rest where "calls (snd (start sp w s)) = calls s @ CreateApp ?cn req # rest"
      using start_first_call [OF b, of w s] by blast
    then have "new_calls s (snd (start sp w s)) = CreateApp ?cn req # rest"
      by (rule new_calls_append)
    with build_app_id [OF b] show ?thesis by blast
  qed
  have po: "new_calls s (snd (poll sp w s)) = [GetApp ?cn False]"
    by (rule new_calls_append) (simp add: poll_eq)
  obtain tail where tail: "calls (snd (get_ip_and_port sp w s)) = calls s @ GetApp ?cn True # tail"
    "list_all (keyed_by ?cn) tail"
    using get_ip_and_port_log [of sp w s] by blast
  have gi: "\<exists>rest. new_calls s (snd (get_ip_and_port sp w s)) = GetApp ?cn True # rest
              \<and> list_all (keyed_by ?cn) rest"
    using tail by (auto simp: new_calls_append)
  have sto: "new_calls s (snd (stop sp w s)) = [DeleteApp ?cn]"
    by (rule new_calls_append)
      (simp add: stop_def marathon_delete_app_def split: sum.splits)
  from name st first po gi sto show ?thesis by blast
qed

theorem container_name_is_the_key_witness:
  "container_name example_spawner = ''/jupyter/alice''
   \<and> new_calls fresh_state (snd (poll example_spawner world_ready fresh_state))
       = [GetApp ''/jupyter/alice'' False]
   \<and> new_calls fresh_state (snd (stop example_spawner world_ready fresh_state))
       = [DeleteApp ''/jupyter/alice'']
   \<and> app_id example_request = ''/jupyter/alice''"
  using container_name_is_the_key [of example_spawner fresh_state world_ready] example_build
  by (simp add: example_spawner_def)

subsection \<open>Placement constraints\<close>

text \<open>
  C9. The specification has every configured placement constraint in the constraints of
  the submitted descriptor. \<^verbatim>\<open>get_constraints\<close> builds that list and never returns it:
  with the one constraint \<^verbatim>\<open>["hostname", "UNIQUE"]\<close> configured, \<^verbatim>\<open>get_constraints\<close>
  evaluates to \<^verbatim>\<open>None\<close>, and the descriptor that \<^verbatim>\<open>start\<close> builds and submits has
  \<^verbatim>\<open>None\<close> as its constraints.
\<close>

theorem get_constraints_drops_constraints:
  "marathon_constraints example_spawner = [(''hostname'', ''UNIQUE'', None)]
   \<and> get_constraints example_spawner = None
   \<and> build_app_request example_spawner = Inr example_request
   \<and> app_constraints example_request = None
   \<and> new_calls fresh_state (snd (start example_spawner world_rejected fresh_state))
       = [CreateApp ''/jupyter/alice'' example_request]"
proof -
  have r: "create_app_reply world_rejected (container_name example_spawner) example_request
             = Inl Unclassified
           \<or> create_app_reply world_rejected (container_name example_spawner) example_request
             = Inr ReturnedFalse"
    by (simp add: world_rejected_def)
  have "new_calls fresh_state (snd (start example_spawner world_rejected fresh_state))
          = [CreateApp ''/jupyter/alice'' example_request]"
    by (rule new_calls_append)
      (simp add: start_not_accepted [OF example_build r] example_container_name)
  then show ?thesis
    by (simp add: example_build get_constraints_def)
      (simp add: example_spawner_def example_request_def)
qed

subsection \<open>The server record\<close>

text \<open>
  C10. When \<^verbatim>\<open>start\<close> returns an (address, port) pair, the \<^verbatim>\<open>ip\<close> and \<^verbatim>\<open>port\<close> fields
  of the caller's server record hold that address and that port. On every other outcome
  (\<^verbatim>\<open>None\<close>, or an exception) the two fields are as they were before the call.
\<close>

theorem start_writes_server_record_only_when_ready:
  "(\<forall>ip port. fst (start sp w s) = Inr (Some (ip, port)) \<longrightarrow>
       server_ip (snd (start sp w s)) = ip \<and> server_port (snd (start sp w s)) = port)
   \<and> ((\<forall>ep. fst (start sp w s) \<noteq> Inr (Some ep)) \<longrightarrow>
       server_ip (snd (start sp w s)) = server_ip s \<and> server_port (snd (start sp w s)) = server_port s)"
proof (cases "build_app_request sp")
  case (Inl e)
  then show ?thesis by (simp add: start_def)
next
  case (Inr req)
  let ?cn = "container_name sp"
  let ?s0 = "log_call (CreateApp ?cn req) s"
  show ?thesis
  proof (cases "create_app_reply w ?cn req = Inr CreatedApp")
    case True
    show ?thesis
      using start_loop_server [of sp w "nat (start_timeout sp)" ?s0]
      by (simp add: start_accepted [OF Inr True])
  next
    case False
    then have "create_app_reply w ?cn req = Inr ReturnedFalse \<or> (\<exists>e. create_app_reply w ?cn req = Inl e)"
      by (cases "create_app_reply w ?cn req") (auto intro: create_result.exhaust)
    then have "start sp w s = (Inr None, ?s0)"
      using start_not_accepted [OF Inr, of w _ s] by blast
    then show ?thesis by simp
  qed
qed

theorem start_writes_server_record_only_when_ready_witness:
  "fst (start example_spawner world_ready fresh_state) = Inr (Some (''10.0.0.7'', 31000))
   \<and> server_ip (snd (start example_spawner world_ready fresh_state)) = ''10.0.0.7''
   \<and> server_port (snd (start example_spawner world_ready fresh_state)) = 31000
   \<and> fst (start example_spawner world_never_healthy fresh_state) = Inr None
   \<and> server_ip (snd (start example_spawner world_never_healthy fresh_state)) = []
   \<and> server_port (snd (start example_spawner world_never_healthy fresh_state)) = 0"
  using start_writes_server_record_only_when_ready [of example_spawner world_ready fresh_state]
    start_writes_server_record_only_when_ready [of example_spawner world_never_healthy fresh_state]
    example_ready_result example_timeout_result
  by (simp add: fresh_state_def)

end
